theory Spec2Isabelle
  imports
    Main
    "HOL-Library.Char_ord"
    "HOL-Library.List_Lexorder"
    "HOL-Library.Sublist"
    "HOL-Library.Multiset"
begin

section \<open>The stored data: three SQLite tables\<close>

text \<open>
  \<^verbatim>\<open>init_db\<close> of \<^verbatim>\<open>main.py\<close> creates the tables \<^verbatim>\<open>books\<close>, \<^verbatim>\<open>students\<close> and
  \<^verbatim>\<open>issued_books\<close>. A table is the list of its rows in rowid order. Every \<^verbatim>\<open>id\<close>
  column is \<^verbatim>\<open>INTEGER PRIMARY KEY AUTOINCREMENT\<close>, so each table carries the counter that
  SQLite keeps for it in \<^verbatim>\<open>sqlite_sequence\<close>. A nullable column is an \<open>option\<close>.
  Text is a list of characters with code points below 256.
  The foreign keys of \<^verbatim>\<open>issued_books\<close> are declared but, as is SQLite's default, not
  enforced: no statement fails for a missing book or student row. The tables are
  created only if they do not exist, so the callbacks work on whatever the database
  file holds when the program starts.
\<close>

record book =
  b_id :: int
  title :: string
  author :: string
  quantity :: int

record student =
  s_id :: int
  name :: string
  roll_no :: string

record issued =
  i_id :: int
  book_id :: int
  student_id :: int
  issue_date :: string
  return_date :: "string option"

record db =
  books :: "book list"
  books_seq :: int
  students :: "student list"
  students_seq :: int
  issued_books :: "issued list"
  issued_seq :: int

definition init_db :: db where
  "init_db = \<lparr>books = [], books_seq = 0, students = [], students_seq = 0,
              issued_books = [], issued_seq = 0\<rparr>"

text \<open>AUTOINCREMENT: one more than the largest rowid the table holds or ever held.\<close>

definition next_rowid :: "int \<Rightarrow> int list \<Rightarrow> int" where
  "next_rowid seq ids = fold max ids seq + 1"

definition insert_book :: "string \<Rightarrow> string \<Rightarrow> int \<Rightarrow> db \<Rightarrow> db" where
  "insert_book t a q d =
     (let k = next_rowid (books_seq d) (map b_id (books d))
      in d\<lparr>books := books d @ [\<lparr>b_id = k, title = t, author = a, quantity = q\<rparr>],
            books_seq := k\<rparr>)"

definition insert_student :: "string \<Rightarrow> string \<Rightarrow> db \<Rightarrow> db" where
  "insert_student n r d =
     (let k = next_rowid (students_seq d) (map s_id (students d))
      in d\<lparr>students := students d @ [\<lparr>s_id = k, name = n, roll_no = r\<rparr>],
            students_seq := k\<rparr>)"

definition insert_issued :: "int \<Rightarrow> int \<Rightarrow> string \<Rightarrow> db \<Rightarrow> db" where
  "insert_issued b s t d =
     (let k = next_rowid (issued_seq d) (map i_id (issued_books d))
      in d\<lparr>issued_books := issued_books d @
              [\<lparr>i_id = k, book_id = b, student_id = s, issue_date = t, return_date = None\<rparr>],
            issued_seq := k\<rparr>)"

section \<open>SQLite's arithmetic on the column \<^verbatim>\<open>quantity\<close>\<close>

text \<open>
  The column holds a 64-bit INTEGER, written as its value from \<open>- 2^63\<close> to
  \<open>2^63 - 1\<close>, or, once \<^verbatim>\<open>quantity + 1\<close> or \<^verbatim>\<open>quantity - 1\<close> has left that range, a
  REAL. An integer outside the range stands for the REAL nearest to it: \<open>2^63\<close> for
  the result of \<open>2^63 - 1 + 1\<close> and \<open>- 2^63 - 1\<close> for the result of \<open>- 2^63 - 1\<close>,
  which is the REAL \<open>- 2^63\<close>. On a REAL of that size adding or subtracting 1 gives
  the same REAL again. Python compares what it reads from the column by value.
\<close>

definition sqlite_plus_one :: "int \<Rightarrow> int" where
  "sqlite_plus_one q = (if - (2 ^ 63) \<le> q \<and> q \<le> 2 ^ 63 - 1 then q + 1 else q)"

definition sqlite_minus_one :: "int \<Rightarrow> int" where
  "sqlite_minus_one q = (if - (2 ^ 63) \<le> q \<and> q \<le> 2 ^ 63 - 1 then q - 1 else q)"

section \<open>Python's \<^verbatim>\<open>str.strip\<close> and \<^verbatim>\<open>int\<close>\<close>

text \<open>
  Every entry field is read with \<^verbatim>\<open>.get().strip()\<close>, which removes the characters
  that \<^verbatim>\<open>str.isspace\<close> accepts: below code point 256 these are 9 to 13, 28 to 32, 133
  and 160. \<^verbatim>\<open>int\<close> skips the same characters but for 28 to 31 at both ends, then
  reads an optional sign and decimal digits, of which the only ones below code point 256
  are 0 to 9, and raises \<^verbatim>\<open>ValueError\<close> for a text of more than 4300 digits (the
  default of \<^verbatim>\<open>sys.int_max_str_digits\<close> since Python 3.11).
\<close>

definition is_space :: "char \<Rightarrow> bool" where
  "is_space c = (of_char c \<in> {9, 10, 11, 12, 13, 28, 29, 30, 31, 32, 133, 160 :: nat})"

definition py_strip :: "string \<Rightarrow> string" where
  "py_strip s = rev (dropWhile is_space (rev (dropWhile is_space s)))"

definition is_digit :: "char \<Rightarrow> bool" where
  "is_digit c = (48 \<le> (of_char c :: nat) \<and> (of_char c :: nat) \<le> 57)"

definition digit_val :: "char \<Rightarrow> int" where
  "digit_val c = int (of_char c) - 48"

text \<open>
  The digits of a decimal literal after its first digit: a single underscore may stand
  between two digits. \<open>None\<close> is Python's \<^verbatim>\<open>ValueError\<close>.
\<close>

fun py_digits :: "int \<Rightarrow> string \<Rightarrow> int option" where
  "py_digits acc [] = Some acc"
| "py_digits acc (c # cs) =
     (if is_digit c then py_digits (10 * acc + digit_val c) cs
      else if c = CHR ''_'' then
        (case cs of
           [] \<Rightarrow> None
         | d # ds \<Rightarrow> if is_digit d then py_digits (10 * acc + digit_val d) ds else None)
      else None)"

definition py_unsigned :: "string \<Rightarrow> int option" where
  "py_unsigned s =
     (case s of
        [] \<Rightarrow> None
      | c # cs \<Rightarrow>
          if is_digit c \<and> length (filter is_digit s) \<le> 4300
          then py_digits (digit_val c) cs else None)"

definition int_space :: "char \<Rightarrow> bool" where
  "int_space c = (of_char c \<in> {9, 10, 11, 12, 13, 32, 133, 160 :: nat})"

definition py_int :: "string \<Rightarrow> int option" where
  "py_int s =
     (case rev (dropWhile int_space (rev (dropWhile int_space s))) of
        [] \<Rightarrow> None
      | c # cs \<Rightarrow>
          if c = CHR ''-'' then map_option uminus (py_unsigned cs)
          else if c = CHR ''+'' then py_unsigned cs
          else py_unsigned (c # cs))"

section \<open>SQLite's \<^verbatim>\<open>LIKE\<close>\<close>

text \<open>
  \<^verbatim>\<open>%\<close> matches any run of characters, \<^verbatim>\<open>_\<close> matches one character, and any other
  character matches itself up to the case of the letters A to Z. No escape character is
  set by the queries of \<^verbatim>\<open>main.py\<close>. The function reads its two arguments as C
  strings, that is, up to their first NUL character, and it fails with the error
  \<^verbatim>\<open>LIKE or GLOB pattern too complex\<close> when the pattern is longer than 50000 bytes of
  UTF-8, in which a character from code point 128 on takes two bytes.
\<close>

definition ascii_lower :: "char \<Rightarrow> char" where
  "ascii_lower c =
     (if 65 \<le> (of_char c :: nat) \<and> (of_char c :: nat) \<le> 90
      then char_of (of_char c + (32 :: nat)) else c)"

fun like_match :: "string \<Rightarrow> string \<Rightarrow> bool" where
  "like_match [] t = (t = [])"
| "like_match (p # ps) [] = (p = CHR ''%'' \<and> like_match ps [])"
| "like_match (p # ps) (c # cs) =
     (if p = CHR ''%'' then like_match ps (c # cs) \<or> like_match (p # ps) cs
      else (p = CHR ''_'' \<or> ascii_lower p = ascii_lower c) \<and> like_match ps cs)"

definition c_string :: "string \<Rightarrow> string" where
  "c_string s = takeWhile (\<lambda>c. c \<noteq> CHR 0x00) s"

definition utf8_length :: "string \<Rightarrow> nat" where
  "utf8_length s = length s + length (filter (\<lambda>c. 128 \<le> (of_char c :: nat)) s)"

definition sqlite_like :: "string \<Rightarrow> string \<Rightarrow> bool" where
  "sqlite_like pattern t = like_match (c_string pattern) (c_string t)"

section \<open>What an operation reports\<close>

text \<open>One constructor for each message box that ends a callback of \<^verbatim>\<open>main.py\<close>.\<close>

datatype outcome =
    Fields_Required
  | Quantity_Invalid
  | Book_Added
  | Book_Updated
  | No_Selection
  | Not_Confirmed
  | Currently_Issued
  | Book_Deleted
  | Id_Roll_Required
  | Book_Not_Found
  | Unavailable
  | Name_Required
  | Already_Issued
  | Issued
  | Returned
  | Database_Error

section \<open>AddBookFrame.save_book\<close>

text \<open>
  Binding a Python integer above \<open>2^63 - 1\<close> to a statement raises \<^verbatim>\<open>OverflowError\<close>,
  which the callback's \<^verbatim>\<open>except Exception\<close> reports as a database error.
\<close>

definition save_book :: "string \<Rightarrow> string \<Rightarrow> string \<Rightarrow> db \<Rightarrow> outcome \<times> db" where
  "save_book title_entry author_entry quantity_entry d =
     (let t = py_strip title_entry; a = py_strip author_entry; qty = py_strip quantity_entry
      in if t = [] \<or> a = [] \<or> qty = [] then (Fields_Required, d)
         else case py_int qty of
                None \<Rightarrow> (Quantity_Invalid, d)
              | Some q \<Rightarrow>
                  if q < 0 then (Quantity_Invalid, d)
                  else if 2 ^ 63 - 1 < q then (Database_Error, d)
                  else (Book_Added, insert_book t a q d))"

section \<open>ViewBooksFrame\<close>

text \<open>
  \<^verbatim>\<open>load_books\<close> empties the table on the screen and fills it with the rows of the
  query. The \<^verbatim>\<open>LIKE\<close> function runs once for each stored row, so an over-long pattern
  raises its error as soon as there is a row; the callback then reports a database error
  and the table stays empty.
\<close>

definition load_books :: "string \<Rightarrow> db \<Rightarrow> (outcome + book list) \<times> db" where
  "load_books filter_text d =
     (if filter_text \<noteq> []
      then (let pattern = CHR ''%'' # filter_text @ [CHR ''%'']
            in if books d \<noteq> [] \<and> 50000 < utf8_length pattern then (Inl Database_Error, d)
               else (Inr (sort_key title
                            (filter (\<lambda>b. sqlite_like pattern (title b)) (books d))), d))
      else (Inr (sort_key title (books d)), d))"

definition search_action :: "string \<Rightarrow> db \<Rightarrow> (outcome + book list) \<times> db" where
  "search_action search_entry d = load_books (py_strip search_entry) d"

text \<open>
  \<^verbatim>\<open>open_update_window\<close>, the only caller of \<^verbatim>\<open>save_update\<close>, names
  \<^verbatim>\<open>BG_CONTENT\<close>, a local variable of \<^verbatim>\<open>setup_styles\<close>, and so raises
  \<^verbatim>\<open>NameError\<close> before it builds the form: the program as it is never calls
  \<^verbatim>\<open>save_update\<close>. The model keeps it, with the id of an arbitrary row, among the
  operations; this only adds to the states that count as reachable.
\<close>

text \<open>
  \<^verbatim>\<open>delete_selected\<close> reads the focused row of the table (\<open>None\<close> when no row has the
  focus) and the answer to its confirmation dialog.
\<close>

definition delete_selected :: "book option \<Rightarrow> bool \<Rightarrow> db \<Rightarrow> outcome \<times> db" where
  "delete_selected selected_item confirm d =
     (case selected_item of
        None \<Rightarrow> (No_Selection, d)
      | Some book_data \<Rightarrow>
          if \<not> confirm then (Not_Confirmed, d)
          else if find (\<lambda>i. book_id i = b_id book_data \<and> return_date i = None)
                    (issued_books d) \<noteq> None
               then (Currently_Issued, d)
               else (Book_Deleted,
                     d\<lparr>books := filter (\<lambda>b. b_id b \<noteq> b_id book_data) (books d)\<rparr>))"

definition save_update :: "int \<Rightarrow> string \<Rightarrow> string \<Rightarrow> string \<Rightarrow> db \<Rightarrow> outcome \<times> db" where
  "save_update bid title_entry author_entry qty_entry d =
     (let t = py_strip title_entry; a = py_strip author_entry; qty = py_strip qty_entry
      in if t = [] \<or> a = [] \<or> qty = [] then (Fields_Required, d)
         else case py_int qty of
                None \<Rightarrow> (Quantity_Invalid, d)
              | Some q \<Rightarrow>
                  if q < 0 then (Quantity_Invalid, d)
                  else if 2 ^ 63 - 1 < q then (Database_Error, d)
                  else (Book_Updated,
                        d\<lparr>books := map (\<lambda>b. if b_id b = bid
                                             then b\<lparr>title := t, author := a, quantity := q\<rparr>
                                             else b) (books d)\<rparr>))"

section \<open>IssueBookFrame.issue_book\<close>

text \<open>
  The book id is the text of an entry field, compared with the integer column \<^verbatim>\<open>id\<close>
  and stored in the integer column \<^verbatim>\<open>book_id\<close>. SQLite reads such a text as a number;
  the parameter \<open>numeric\<close> is that reading (\<open>None\<close> when the text equals no integer), so
  every result below holds for whatever texts SQLite takes for a number.

  The new student row is committed before the check for an open loan; the loan row and
  the decrement are committed together. \<open>issue_to_student\<close> is the callback from its
  step 3 on (check for an open loan, record the issue, decrement the quantity), which
  both branches of the student lookup continue with; \<^verbatim>\<open>cur.lastrowid\<close> is the id of
  the row just inserted.
\<close>

definition issue_to_student :: "int \<Rightarrow> int \<Rightarrow> string \<Rightarrow> db \<Rightarrow> outcome \<times> db" where
  "issue_to_student k sid today d =
     (if find (\<lambda>i. book_id i = k \<and> student_id i = sid \<and> return_date i = None)
           (issued_books d) \<noteq> None
      then (Already_Issued, d)
      else (let d2 = insert_issued k sid today d
            in (Issued,
                d2\<lparr>books := map (\<lambda>b. if b_id b = k
                                     then b\<lparr>quantity := sqlite_minus_one (quantity b)\<rparr>
                                     else b)
                                (books d2)\<rparr>)))"

definition issue_book ::
  "(string \<Rightarrow> int option) \<Rightarrow> string \<Rightarrow> string \<Rightarrow> string \<Rightarrow> string \<Rightarrow> db \<Rightarrow> outcome \<times> db" where
  "issue_book numeric today book_id_entry roll_entry sname_entry d =
     (let bid = py_strip book_id_entry; sroll = py_strip roll_entry;
          sname = py_strip sname_entry
      in if bid = [] \<or> sroll = [] then (Id_Roll_Required, d)
         else case numeric bid of
                None \<Rightarrow> (Book_Not_Found, d)
              | Some k \<Rightarrow>
                 (case find (\<lambda>b. b_id b = k) (books d) of
                    None \<Rightarrow> (Book_Not_Found, d)
                  | Some bk \<Rightarrow>
                      if quantity bk \<le> 0 then (Unavailable, d)
                      else (case find (\<lambda>s. roll_no s = sroll) (students d) of
                              None \<Rightarrow>
                                if sname = [] then (Name_Required, d)
                                else (let d1 = insert_student sname sroll d
                                      in issue_to_student k (students_seq d1) today d1)
                            | Some st \<Rightarrow> issue_to_student k (s_id st) today d)))"

section \<open>ReturnBookFrame\<close>

text \<open>A row of the table of open loans, as \<^verbatim>\<open>load_issued_books\<close> selects it.\<close>

record loan_row =
  r_issue_id :: int
  r_title :: string
  r_name :: string
  r_roll_no :: string
  r_issue_date :: string
  r_book_id :: int

definition load_issued_books :: "db \<Rightarrow> loan_row list \<times> db" where
  "load_issued_books d =
     (sort_key r_issue_date
        (concat (map (\<lambda>i. concat (map (\<lambda>b. concat (map (\<lambda>s.
           if book_id i = b_id b \<and> student_id i = s_id s \<and> return_date i = None
           then [\<lparr>r_issue_id = i_id i, r_title = title b, r_name = name s,
                  r_roll_no = roll_no s, r_issue_date = issue_date i,
                  r_book_id = book_id i\<rparr>]
           else []) (students d))) (books d))) (issued_books d))), d)"

definition return_book :: "string \<Rightarrow> loan_row option \<Rightarrow> bool \<Rightarrow> db \<Rightarrow> outcome \<times> db" where
  "return_book today selected_item confirm d =
     (case selected_item of
        None \<Rightarrow> (No_Selection, d)
      | Some data \<Rightarrow>
          if \<not> confirm then (Not_Confirmed, d)
          else (Returned,
                d\<lparr>issued_books := map (\<lambda>i. if i_id i = r_issue_id data
                                            then i\<lparr>return_date := Some today\<rparr> else i)
                                       (issued_books d),
                  books := map (\<lambda>b. if b_id b = r_book_id data
                                     then b\<lparr>quantity := sqlite_plus_one (quantity b)\<rparr>
                                     else b)
                               (books d)\<rparr>))"

section \<open>Sequences of operations\<close>

datatype op =
    AddBook string string string
  | UpdateBook int string string string
  | DeleteBook "book option" bool
  | IssueBook string string string string
  | ReturnBook string "loan_row option" bool

fun step :: "(string \<Rightarrow> int option) \<Rightarrow> op \<Rightarrow> db \<Rightarrow> outcome \<times> db" where
  "step numeric (AddBook t a q) d = save_book t a q d"
| "step numeric (UpdateBook k t a q) d = save_update k t a q d"
| "step numeric (DeleteBook sel c) d = delete_selected sel c d"
| "step numeric (IssueBook today b r n) d = issue_book numeric today b r n d"
| "step numeric (ReturnBook today sel c) d = return_book today sel c d"

fun run :: "(string \<Rightarrow> int option) \<Rightarrow> op list \<Rightarrow> db \<Rightarrow> db" where
  "run numeric [] d = d"
| "run numeric (x # xs) d = run numeric xs (snd (step numeric x d))"

section \<open>The error kinds of the specification\<close>

datatype error_kind = ValidationError | NotFoundError | ConflictError | StorageError

text \<open>
  Following the taxonomy of the specification: missing or malformed input is a
  validation error, an unknown book id is a not-found error, a refusal that protects a
  business rule is a conflict, and a database exception is a storage error. Declining a
  confirmation dialog is no error.
\<close>

fun spec_error :: "outcome \<Rightarrow> error_kind option" where
  "spec_error Fields_Required = Some ValidationError"
| "spec_error Quantity_Invalid = Some ValidationError"
| "spec_error No_Selection = Some ValidationError"
| "spec_error Id_Roll_Required = Some ValidationError"
| "spec_error Name_Required = Some ValidationError"
| "spec_error Book_Not_Found = Some NotFoundError"
| "spec_error Currently_Issued = Some ConflictError"
| "spec_error Unavailable = Some ConflictError"
| "spec_error Already_Issued = Some ConflictError"
| "spec_error Database_Error = Some StorageError"
| "spec_error Book_Added = None"
| "spec_error Book_Updated = None"
| "spec_error Not_Confirmed = None"
| "spec_error Book_Deleted = None"
| "spec_error Issued = None"
| "spec_error Returned = None"

text \<open>
  The search of the specification, in its words: the title contains the filter as a
  substring, letters compared without regard to case. The empty filter is contained in
  every title.
\<close>

definition contains_ci :: "string \<Rightarrow> string \<Rightarrow> bool" where
  "contains_ci f t = sublist (map ascii_lower f) (map ascii_lower t)"

section \<open>Invariants of the stored data\<close>

text \<open>
  Ids and roll numbers are unique, every loan names a stored student, every open loan
  names a stored book, no roll number is empty, no quantity is negative, and the open
  loans have pairwise different (book, student) pairs.
\<close>

definition unique_ids :: "db \<Rightarrow> bool" where
  "unique_ids d =
     (distinct (map b_id (books d)) \<and> distinct (map s_id (students d)) \<and>
      distinct (map roll_no (students d)) \<and> distinct (map i_id (issued_books d)))"

definition refs_ok :: "db \<Rightarrow> bool" where
  "refs_ok d =
     ((\<forall>i\<in>set (issued_books d). student_id i \<in> s_id ` set (students d)) \<and>
      (\<forall>i\<in>set (issued_books d).
          return_date i = None \<longrightarrow> book_id i \<in> b_id ` set (books d)) \<and>
      (\<forall>s\<in>set (students d). roll_no s \<noteq> []))"

definition quantities_ok :: "db \<Rightarrow> bool" where
  "quantities_ok d = (\<forall>b\<in>set (books d). 0 \<le> quantity b)"

definition open_loans :: "int \<Rightarrow> int \<Rightarrow> db \<Rightarrow> issued list" where
  "open_loans k sid d =
     filter (\<lambda>i. book_id i = k \<and> student_id i = sid \<and> return_date i = None)
       (issued_books d)"

definition one_open_loan :: "db \<Rightarrow> bool" where
  "one_open_loan d =
     distinct (map (\<lambda>i. (book_id i, student_id i))
                 (filter (\<lambda>i. return_date i = None) (issued_books d)))"

definition wf :: "db \<Rightarrow> bool" where
  "wf d = (unique_ids d \<and> refs_ok d \<and> quantities_ok d \<and> one_open_loan d)"

section \<open>A scenario of the specification\<close>

text \<open>
  One book with two copies is added and issued to a new student; the book id entry is
  read as a decimal number.
\<close>

definition stock_db :: db where
  "stock_db = run py_int [AddBook ''Dune'' ''Herbert'' ''2''] init_db"

definition dune_ops :: "op list" where
  "dune_ops = [AddBook ''Dune'' ''Herbert'' ''2'',
               IssueBook ''2026-11-04'' ''1'' ''R100'' ''Alice'']"

definition dune_db :: db where
  "dune_db = run py_int dune_ops init_db"

definition dune_book :: book where
  "dune_book = \<lparr>b_id = 1, title = ''Dune'', author = ''Herbert'', quantity = 1\<rparr>"

definition dune_row :: loan_row where
  "dune_row = \<lparr>r_issue_id = 1, r_title = ''Dune'', r_name = ''Alice'', r_roll_no = ''R100'',
                r_issue_date = ''2026-11-04'', r_book_id = 1\<rparr>"

text \<open>A second book is added after the first has been issued.\<close>

definition shelf_db :: db where
  "shelf_db = run py_int [AddBook ''Emma'' ''Austen'' ''1''] dune_db"



text \<open>The other scenario of the specification: a book added with no copies.\<close>

definition none_left_db :: db where
  "none_left_db = run py_int [AddBook ''X'' ''Y'' ''0''] init_db"

section \<open>Evaluating the scenario\<close>

lemmas eval_defs =
  save_book_def save_update_def issue_book_def issue_to_student_def
  py_strip_def py_int_def py_unsigned_def is_space_def int_space_def is_digit_def
  digit_val_def sqlite_plus_one_def sqlite_minus_one_def
  init_db_def insert_book_def insert_student_def insert_issued_def next_rowid_def Let_def

lemma stock_db_eval:
  "stock_db =
     \<lparr>books = [\<lparr>b_id = 1, title = ''Dune'', author = ''Herbert'', quantity = 2\<rparr>],
      books_seq = 1, students = [], students_seq = 0, issued_books = [], issued_seq = 0\<rparr>"
  unfolding stock_db_def by code_simp

lemma shelf_db_eval:
  "shelf_db =
     \<lparr>books = [\<lparr>b_id = 1, title = ''Dune'', author = ''Herbert'', quantity = 1\<rparr>,
               \<lparr>b_id = 2, title = ''Emma'', author = ''Austen'', quantity = 1\<rparr>],
      books_seq = 2,
      students = [\<lparr>s_id = 1, name = ''Alice'', roll_no = ''R100''\<rparr>],
      students_seq = 1,
      issued_books = [\<lparr>i_id = 1, book_id = 1, student_id = 1,
                        issue_date = ''2026-11-04'', return_date = None\<rparr>],
      issued_seq = 1\<rparr>"
  unfolding shelf_db_def dune_db_def dune_ops_def by code_simp

lemma dune_db_eval:
  "dune_db =
     \<lparr>books = [\<lparr>b_id = 1, title = ''Dune'', author = ''Herbert'', quantity = 1\<rparr>],
      books_seq = 1,
      students = [\<lparr>s_id = 1, name = ''Alice'', roll_no = ''R100''\<rparr>],
      students_seq = 1,
      issued_books = [\<lparr>i_id = 1, book_id = 1, student_id = 1,
                        issue_date = ''2026-11-04'', return_date = None\<rparr>],
      issued_seq = 1\<rparr>"
  unfolding dune_db_def dune_ops_def by code_simp


lemma none_left_db_eval:
  "none_left_db =
     \<lparr>books = [\<lparr>b_id = 1, title = ''X'', author = ''Y'', quantity = 0\<rparr>],
      books_seq = 1, students = [], students_seq = 0, issued_books = [], issued_seq = 0\<rparr>"
  unfolding none_left_db_def by code_simp

section \<open>Rowids and lookups\<close>

lemma fold_max_ge: "(s::int) \<le> fold max ids s"
proof (induction ids arbitrary: s)
  case Nil
  then show ?case by simp
next
  case (Cons a ids)
  have "s \<le> max a s" by simp
  also have "max a s \<le> fold max ids (max a s)" by (rule Cons.IH)
  finally show ?case by simp
qed

lemma fold_max_mem: "(k::int) \<in> set ids \<Longrightarrow> k \<le> fold max ids s"
proof (induction ids arbitrary: s)
  case Nil
  then show ?case by simp
next
  case (Cons a ids)
  show ?case
  proof (cases "k = a")
    case True
    have "max a s \<le> fold max ids (max a s)" by (rule fold_max_ge)
    with True show ?thesis by simp
  next
    case False
    with Cons show ?thesis by simp
  qed
qed

lemma next_rowid_fresh: "next_rowid s ids \<notin> set ids"
  using fold_max_mem [of "next_rowid s ids" ids s] by (auto simp: next_rowid_def)

lemma find_Some_set: "find P xs = Some x \<Longrightarrow> x \<in> set xs \<and> P x"
  by (auto simp: find_Some_iff)

lemma find_distinct_key:
  assumes d: "distinct (map f xs)" and f: "find (\<lambda>x. f x = k) xs = Some x"
    and y: "y \<in> set xs" "f y = k"
  shows "y = x"
proof -
  from f have "x \<in> set xs" "f x = k" by (auto simp: find_Some_iff)
  moreover from d have "inj_on f (set xs)" by (simp add: distinct_map)
  ultimately show "y = x" using y by (auto dest: inj_onD)
qed

lemma insert_book_sel [simp]:
  "books (insert_book t a q d) =
     books d @ [\<lparr>b_id = next_rowid (books_seq d) (map b_id (books d)),
                 title = t, author = a, quantity = q\<rparr>]"
  "students (insert_book t a q d) = students d"
  "issued_books (insert_book t a q d) = issued_books d"
  by (simp_all add: insert_book_def Let_def)

lemma insert_student_sel [simp]:
  "students (insert_student n r d) =
     students d @ [\<lparr>s_id = next_rowid (students_seq d) (map s_id (students d)),
                    name = n, roll_no = r\<rparr>]"
  "students_seq (insert_student n r d) = next_rowid (students_seq d) (map s_id (students d))"
  "books (insert_student n r d) = books d"
  "issued_books (insert_student n r d) = issued_books d"
  by (simp_all add: insert_student_def Let_def)

lemma insert_issued_sel [simp]:
  "issued_books (insert_issued k sid t d) =
     issued_books d @ [\<lparr>i_id = next_rowid (issued_seq d) (map i_id (issued_books d)),
        book_id = k, student_id = sid, issue_date = t, return_date = None\<rparr>]"
  "books (insert_issued k sid t d) = books d"
  "students (insert_issued k sid t d) = students d"
  by (simp_all add: insert_issued_def Let_def)

section \<open>DeleteBook\<close>

lemma delete_selected_on_loan:
  assumes "\<exists>i\<in>set (issued_books d). book_id i = b_id bk \<and> return_date i = None"
  shows "delete_selected (Some bk) True d = (Currently_Issued, d)"
proof -
  from assms
  have "find (\<lambda>i. book_id i = b_id bk \<and> return_date i = None) (issued_books d) \<noteq> None"
    unfolding find_None_iff by blast
  then show ?thesis unfolding delete_selected_def by simp
qed

lemma delete_selected_free:
  assumes "\<not> (\<exists>i\<in>set (issued_books d). book_id i = b_id bk \<and> return_date i = None)"
  shows "delete_selected (Some bk) True d =
           (Book_Deleted, d\<lparr>books := filter (\<lambda>b. b_id b \<noteq> b_id bk) (books d)\<rparr>)"
proof -
  from assms
  have "find (\<lambda>i. book_id i = b_id bk \<and> return_date i = None) (issued_books d) = None"
    unfolding find_None_iff by blast
  then show ?thesis unfolding delete_selected_def by simp
qed

text \<open>
  C5. Deleting the selected book, once confirmed, fails with a conflict exactly when some
  loan row of that book has no return date, and then nothing stored changes. Otherwise
  the callback reports the deletion: no row with the book's id is left in the table of
  books, every other book row stays, no row is added, and students and loans are
  untouched.
\<close>

theorem delete_book_conflict_iff_open_loan:
  fixes bk :: book and d :: db
  defines "r \<equiv> delete_selected (Some bk) True d"
  defines "on_loan \<equiv>
    (\<exists>i\<in>set (issued_books d). book_id i = b_id bk \<and> return_date i = None)"
  shows "(spec_error (fst r) = Some ConflictError \<longleftrightarrow> on_loan)
       \<and> (on_loan \<longrightarrow> r = (Currently_Issued, d))
       \<and> (\<not> on_loan \<longrightarrow> fst r = Book_Deleted
             \<and> b_id bk \<notin> b_id ` set (books (snd r))
             \<and> (\<forall>b\<in>set (books d). b_id b \<noteq> b_id bk \<longrightarrow> b \<in> set (books (snd r)))
             \<and> set (books (snd r)) \<subseteq> set (books d)
             \<and> students (snd r) = students d \<and> issued_books (snd r) = issued_books d)"
proof (cases on_loan)
  case True
  then have "r = (Currently_Issued, d)"
    unfolding r_def on_loan_def by (rule delete_selected_on_loan)
  with True show ?thesis by simp
next
  case False
  then have "r = (Book_Deleted, d\<lparr>books := filter (\<lambda>b. b_id b \<noteq> b_id bk) (books d)\<rparr>)"
    unfolding r_def on_loan_def by (rule delete_selected_free)
  with False show ?thesis by auto
qed

theorem delete_book_conflict_iff_open_loan_witness:
  "(\<exists>i\<in>set (issued_books dune_db). book_id i = b_id dune_book \<and> return_date i = None)
   \<and> delete_selected (Some dune_book) True dune_db = (Currently_Issued, dune_db)
   \<and> \<not> (\<exists>i\<in>set (issued_books (dune_db\<lparr>issued_books := []\<rparr>)).
            book_id i = b_id dune_book \<and> return_date i = None)
   \<and> fst (delete_selected (Some dune_book) True (dune_db\<lparr>issued_books := []\<rparr>)) = Book_Deleted
   \<and> b_id dune_book \<notin>
       b_id ` set (books (snd (delete_selected (Some dune_book) True
                                 (dune_db\<lparr>issued_books := []\<rparr>))))"
proof -
  have open_loan:
    "\<exists>i\<in>set (issued_books dune_db). book_id i = b_id dune_book \<and> return_date i = None"
    by (simp add: dune_db_eval dune_book_def)
  have no_loan:
    "\<not> (\<exists>i\<in>set (issued_books (dune_db\<lparr>issued_books := []\<rparr>)).
           book_id i = b_id dune_book \<and> return_date i = None)"
    by simp
  show ?thesis
    using open_loan no_loan
      delete_book_conflict_iff_open_loan [of dune_book dune_db]
      delete_book_conflict_iff_open_loan [of dune_book "dune_db\<lparr>issued_books := []\<rparr>"]
    by blast
qed

section \<open>ReturnBook: what it leaves alone\<close>

lemma return_book_confirmed:
  "return_book today (Some row) True d =
     (Returned,
      d\<lparr>issued_books := map (\<lambda>i. if i_id i = r_issue_id row
                                   then i\<lparr>return_date := Some today\<rparr> else i) (issued_books d),
        books := map (\<lambda>b. if b_id b = r_book_id row
                           then b\<lparr>quantity := sqlite_plus_one (quantity b)\<rparr> else b)
                     (books d)\<rparr>)"
  by (simp add: return_book_def)

text \<open>
  C10. Returning the selected row of an existing loan changes, in the table of loans,
  only the return date of the rows with that loan's id, and in the table of books only
  the quantity of the rows with that loan's book id, which becomes what SQLite makes of
  \<^verbatim>\<open>quantity + 1\<close>. Ids, book and student references, issue dates, titles and authors
  stay, every other loan row and book row stays as it is, and the table of students is
  untouched.
\<close>

theorem return_book_frame:
  fixes row :: loan_row and d :: db and today :: string and i :: issued
  defines "d' \<equiv> snd (return_book today (Some row) True d)"
  assumes "i \<in> set (issued_books d)"
    and "r_issue_id row = i_id i" and "r_book_id row = book_id i"
  shows "students d' = students d
       \<and> length (issued_books d') = length (issued_books d)
       \<and> (\<forall>n<length (issued_books d).
            i_id (issued_books d' ! n) = i_id (issued_books d ! n)
            \<and> book_id (issued_books d' ! n) = book_id (issued_books d ! n)
            \<and> student_id (issued_books d' ! n) = student_id (issued_books d ! n)
            \<and> issue_date (issued_books d' ! n) = issue_date (issued_books d ! n)
            \<and> (i_id (issued_books d ! n) \<noteq> i_id i \<longrightarrow>
                 issued_books d' ! n = issued_books d ! n)
            \<and> (i_id (issued_books d ! n) = i_id i \<longrightarrow>
                 return_date (issued_books d' ! n) = Some today))
       \<and> length (books d') = length (books d)
       \<and> (\<forall>n<length (books d).
            b_id (books d' ! n) = b_id (books d ! n)
            \<and> title (books d' ! n) = title (books d ! n)
            \<and> author (books d' ! n) = author (books d ! n)
            \<and> (b_id (books d ! n) \<noteq> book_id i \<longrightarrow> books d' ! n = books d ! n)
            \<and> (b_id (books d ! n) = book_id i \<longrightarrow>
                 quantity (books d' ! n) = sqlite_plus_one (quantity (books d ! n))))"
  unfolding d'_def return_book_confirmed using assms(3,4) by simp

theorem return_book_frame_witness:
  "\<lparr>i_id = 1, book_id = 1, student_id = 1, issue_date = ''2026-11-04'', return_date = None\<rparr>
      \<in> set (issued_books dune_db)
   \<and> r_issue_id dune_row = 1 \<and> r_book_id dune_row = 1
   \<and> 0 < length (issued_books dune_db) \<and> 0 < length (books dune_db)
   \<and> students (snd (return_book ''2026-11-05'' (Some dune_row) True dune_db)) = students dune_db
   \<and> student_id (issued_books (snd (return_book ''2026-11-05'' (Some dune_row) True dune_db)) ! 0)
       = student_id (issued_books dune_db ! 0)
   \<and> title (books (snd (return_book ''2026-11-05'' (Some dune_row) True dune_db)) ! 0)
       = title (books dune_db ! 0)"
proof -
  let ?i = "\<lparr>i_id = 1, book_id = 1, student_id = 1, issue_date = ''2026-11-04'',
             return_date = None\<rparr>"
  have h1: "?i \<in> set (issued_books dune_db)" by (simp add: dune_db_eval)
  have h2: "r_issue_id dune_row = i_id ?i" by (simp add: dune_row_def)
  have h3: "r_book_id dune_row = book_id ?i" by (simp add: dune_row_def)
  have h4: "0 < length (issued_books dune_db)" "0 < length (books dune_db)"
    by (simp_all add: dune_db_eval)
  show ?thesis
    using h1 h2 h3 h4 return_book_frame [OF h1 h2 h3, of "''2026-11-05''"]
    by simp
qed

section \<open>IssueBook: the successful path\<close>

lemma issue_to_student_Issued:
  assumes "issue_to_student k sid today d = (Issued, d')"
  shows "find (\<lambda>i. book_id i = k \<and> student_id i = sid \<and> return_date i = None)
           (issued_books d) = None"
    and "d' = (insert_issued k sid today d)\<lparr>books :=
               map (\<lambda>b. if b_id b = k then b\<lparr>quantity := sqlite_minus_one (quantity b)\<rparr>
                        else b) (books d)\<rparr>"
  using assms by (auto simp: issue_to_student_def Let_def split: if_splits)

lemma issue_to_student_students [simp]:
  "students (snd (issue_to_student k sid today d)) = students d"
  by (simp add: issue_to_student_def Let_def)

lemma issue_book_IssuedE:
  assumes "issue_book numeric today be re ne d = (Issued, d')"
  obtains k bk sid d1 where
    "py_strip be \<noteq> []" "py_strip re \<noteq> []"
    "numeric (py_strip be) = Some k"
    "find (\<lambda>b. b_id b = k) (books d) = Some bk" "0 < quantity bk"
    "(\<exists>st. find (\<lambda>s. roll_no s = py_strip re) (students d) = Some st \<and> sid = s_id st \<and> d1 = d)
     \<or> (find (\<lambda>s. roll_no s = py_strip re) (students d) = None \<and> py_strip ne \<noteq> []
        \<and> d1 = insert_student (py_strip ne) (py_strip re) d
        \<and> sid = next_rowid (students_seq d) (map s_id (students d)))"
    "issue_to_student k sid today d1 = (Issued, d')"
  using assms
  by (auto simp: issue_book_def Let_def split: if_splits option.splits)


section \<open>IssueBook: finding or creating the student\<close>

text \<open>
  C8. Roll numbers are compared as the entry's text without surrounding whitespace.
  When no student row has the roll number and the issue succeeds, the table of students
  grows by exactly one row, with a fresh id, the name supplied and that roll number, and
  the new loan names it. When some student row has the roll number, the table of
  students stays as it is whatever name is supplied, and a successful issue names a
  stored student with that roll number.
\<close>

theorem issue_book_student_lookup_or_create:
  fixes numeric :: "string \<Rightarrow> int option" and d :: db
    and today be re ne :: string
  defines "r \<equiv> issue_book numeric today be re ne d"
  defines "sroll \<equiv> py_strip re"
  defines "new_id \<equiv> next_rowid (students_seq d) (map s_id (students d))"
  shows "(sroll \<notin> roll_no ` set (students d) \<and> fst r = Issued \<longrightarrow>
            students (snd r) =
              students d @ [\<lparr>s_id = new_id, name = py_strip ne, roll_no = sroll\<rparr>]
            \<and> new_id \<notin> s_id ` set (students d)
            \<and> py_strip ne \<noteq> []
            \<and> student_id (last (issued_books (snd r))) = new_id)
       \<and> (sroll \<in> roll_no ` set (students d) \<longrightarrow>
            students (snd r) = students d
            \<and> (fst r = Issued \<longrightarrow>
                 (\<exists>st\<in>set (students d). roll_no st = sroll
                    \<and> student_id (last (issued_books (snd r))) = s_id st)))"
proof (intro conjI impI)
  assume a: "sroll \<notin> roll_no ` set (students d) \<and> fst r = Issued"
  then have "r = (Issued, snd r)" by (metis prod.collapse)
  then have iss: "issue_book numeric today be re ne d = (Issued, snd r)"
    by (simp add: r_def)
  from a have nf: "find (\<lambda>s. roll_no s = sroll) (students d) \<noteq> Some st" for st
    by (auto dest: find_Some_set)
  from iss obtain k sid d1 where
    d1: "d1 = insert_student (py_strip ne) (py_strip re) d" "py_strip ne \<noteq> []"
      "sid = new_id"
    and its: "issue_to_student k sid today d1 = (Issued, snd r)"
    using nf by (elim issue_book_IssuedE) (auto simp: sroll_def new_id_def)
  from issue_to_student_Issued(2) [OF its]
  have "students (snd r) = students d1"
    and "student_id (last (issued_books (snd r))) = sid"
    by simp_all
  with d1 show "students (snd r) =
      students d @ [\<lparr>s_id = new_id, name = py_strip ne, roll_no = sroll\<rparr>]"
    and "student_id (last (issued_books (snd r))) = new_id"
    by (simp_all add: new_id_def sroll_def)
  show "new_id \<notin> s_id ` set (students d)"
    using next_rowid_fresh [of "students_seq d" "map s_id (students d)"]
    by (simp add: new_id_def)
  show "py_strip ne \<noteq> []" by (rule d1)
next
  assume a: "sroll \<in> roll_no ` set (students d)"
  then obtain st where st: "find (\<lambda>s. roll_no s = sroll) (students d) = Some st"
    by (cases "find (\<lambda>s. roll_no s = sroll) (students d)") (auto simp: find_None_iff)
  then show "students (snd r) = students d"
    unfolding r_def sroll_def
    by (simp add: issue_book_def Let_def split: option.splits)
  show "\<exists>st\<in>set (students d). roll_no st = sroll
          \<and> student_id (last (issued_books (snd r))) = s_id st" if "fst r = Issued"
  proof -
    from that have "r = (Issued, snd r)" by (metis prod.collapse)
    then have iss: "issue_book numeric today be re ne d = (Issued, snd r)"
      by (simp add: r_def)
    from iss obtain k where its: "issue_to_student k (s_id st) today d = (Issued, snd r)"
      using st by (elim issue_book_IssuedE) (auto simp: sroll_def)
    from issue_to_student_Issued(2) [OF its]
    have "student_id (last (issued_books (snd r))) = s_id st" by simp
    with find_Some_set [OF st] show ?thesis by blast
  qed
qed

theorem issue_book_student_lookup_or_create_witness:
  "py_strip ''R200'' \<notin> roll_no ` set (students dune_db)
   \<and> fst (issue_book py_int ''2026-11-05'' ''1'' ''R200'' ''Bob'' dune_db) = Issued
   \<and> students (snd (issue_book py_int ''2026-11-05'' ''1'' ''R200'' ''Bob'' dune_db)) =
       students dune_db @ [\<lparr>s_id = 2, name = ''Bob'', roll_no = ''R200''\<rparr>]
   \<and> py_strip ''R100'' \<in> roll_no ` set (students shelf_db)
   \<and> fst (issue_book py_int ''2026-11-05'' ''2'' ''R100'' ''Bob'' shelf_db) = Issued
   \<and> students (snd (issue_book py_int ''2026-11-05'' ''2'' ''R100'' ''Bob'' shelf_db)) =
       students shelf_db"
proof -
  have h1: "py_strip ''R200'' \<notin> roll_no ` set (students dune_db)"
    by (simp add: dune_db_eval py_strip_def is_space_def)
  have h2: "fst (issue_book py_int ''2026-11-05'' ''1'' ''R200'' ''Bob'' dune_db) = Issued"
    by (simp add: dune_db_eval eval_defs)
  have h3: "py_strip ''R100'' \<in> roll_no ` set (students shelf_db)"
    by (simp add: shelf_db_eval py_strip_def is_space_def)
  have h4: "fst (issue_book py_int ''2026-11-05'' ''2'' ''R100'' ''Bob'' shelf_db) = Issued"
    by (simp add: shelf_db_eval eval_defs)
  have e: "next_rowid (students_seq dune_db) (map s_id (students dune_db)) = 2"
    "py_strip ''Bob'' = ''Bob''" "py_strip ''R200'' = ''R200''"
    by (simp_all add: dune_db_eval next_rowid_def py_strip_def is_space_def)
  show ?thesis
    using h1 h2 h3 h4
      issue_book_student_lookup_or_create
        [where re = "''R200''" and d = dune_db and numeric = py_int
           and today = "''2026-11-05''" and be = "''1''" and ne = "''Bob''"]
      issue_book_student_lookup_or_create
        [where re = "''R100''" and d = shelf_db and numeric = py_int
           and today = "''2026-11-05''" and be = "''2''" and ne = "''Bob''"]
    by (simp add: e)
qed

section \<open>IssueBook followed by ReturnBook\<close>

lemma load_issued_books_set:
  "row \<in> set (fst (load_issued_books d)) \<longleftrightarrow>
     (\<exists>i\<in>set (issued_books d). \<exists>b\<in>set (books d). \<exists>s\<in>set (students d).
        book_id i = b_id b \<and> student_id i = s_id s \<and> return_date i = None \<and>
        row = \<lparr>r_issue_id = i_id i, r_title = title b, r_name = name s,
               r_roll_no = roll_no s, r_issue_date = issue_date i, r_book_id = book_id i\<rparr>)"
proof
  assume "row \<in> set (fst (load_issued_books d))"
  then obtain i b s where "i \<in> set (issued_books d)" "b \<in> set (books d)"
    "s \<in> set (students d)" "book_id i = b_id b" "student_id i = s_id s"
    "return_date i = None"
    "row = \<lparr>r_issue_id = i_id i, r_title = title b, r_name = name s,
            r_roll_no = roll_no s, r_issue_date = issue_date i, r_book_id = book_id i\<rparr>"
    by (auto simp: load_issued_books_def split: if_splits)
  then show "\<exists>i\<in>set (issued_books d). \<exists>b\<in>set (books d). \<exists>s\<in>set (students d).
        book_id i = b_id b \<and> student_id i = s_id s \<and> return_date i = None \<and>
        row = \<lparr>r_issue_id = i_id i, r_title = title b, r_name = name s,
               r_roll_no = roll_no s, r_issue_date = issue_date i, r_book_id = book_id i\<rparr>"
    by blast
next
  assume "\<exists>i\<in>set (issued_books d). \<exists>b\<in>set (books d). \<exists>s\<in>set (students d).
        book_id i = b_id b \<and> student_id i = s_id s \<and> return_date i = None \<and>
        row = \<lparr>r_issue_id = i_id i, r_title = title b, r_name = name s,
               r_roll_no = roll_no s, r_issue_date = issue_date i, r_book_id = book_id i\<rparr>"
  then show "row \<in> set (fst (load_issued_books d))"
    by (force simp: load_issued_books_def)
qed

text \<open>
  Every row that the list of open loans offers to \<^verbatim>\<open>return_book\<close> carries the id of
  a stored loan row.
\<close>

lemma listed_row_is_stored_loan:
  assumes "row \<in> set (fst (load_issued_books d))"
  shows "r_issue_id row \<in> i_id ` set (issued_books d)"
  using assms unfolding load_issued_books_set by force









section \<open>The invariants are kept by every table update\<close>

lemma next_rowid_fresh_map: "next_rowid s (map f xs) \<notin> f ` set xs"
  using next_rowid_fresh [of s "map f xs"] by simp

lemmas wf_defs = wf_def unique_ids_def refs_ok_def quantities_ok_def one_open_loan_def

lemma wf_insert_book: "wf d \<Longrightarrow> 0 \<le> q \<Longrightarrow> wf (insert_book t a q d)"
  unfolding wf_defs by (auto simp: next_rowid_fresh_map)

lemma wf_insert_student:
  assumes "wf d" and "r \<noteq> []" and "find (\<lambda>s. roll_no s = r) (students d) = None"
  shows "wf (insert_student n r d)"
proof -
  from assms(3) have "r \<notin> roll_no ` set (students d)"
    by (auto simp: find_None_iff)
  with assms(1,2) show ?thesis
    unfolding wf_defs by (auto simp: next_rowid_fresh_map)
qed

lemma map_key_kept: "(\<And>x. key (g x) = key x) \<Longrightarrow> map key (map g xs) = map key xs"
  by (induction xs) auto

lemma wf_books_same_ids:
  assumes "wf d" and ids: "map b_id bs = map b_id (books d)"
    and q: "\<forall>b\<in>set bs. 0 \<le> quantity b"
  shows "wf (d\<lparr>books := bs\<rparr>)"
proof -
  from ids have "set (map b_id bs) = set (map b_id (books d))" by simp
  then have "b_id ` set bs = b_id ` set (books d)" by simp
  with assms show ?thesis unfolding wf_defs by simp
qed

lemma wf_update_books:
  assumes "wf d" and "0 \<le> q"
  shows "wf (d\<lparr>books := map (\<lambda>b. if b_id b = k
                               then b\<lparr>title := t, author := a, quantity := q\<rparr> else b)
                         (books d)\<rparr>)"
proof (rule wf_books_same_ids [OF assms(1)])
  show "map b_id (map (\<lambda>b. if b_id b = k
                               then b\<lparr>title := t, author := a, quantity := q\<rparr> else b)
                         (books d)) = map b_id (books d)"
    by (rule map_key_kept) simp
  show "\<forall>b\<in>set (map (\<lambda>b. if b_id b = k
                               then b\<lparr>title := t, author := a, quantity := q\<rparr> else b)
                         (books d)). 0 \<le> quantity b"
    using assms by (auto simp: wf_defs)
qed

lemma sqlite_plus_one_nonneg: "0 \<le> q \<Longrightarrow> 0 \<le> sqlite_plus_one q"
  by (simp add: sqlite_plus_one_def)

lemma sqlite_minus_one_nonneg: "0 < q \<Longrightarrow> 0 \<le> sqlite_minus_one q"
  by (simp add: sqlite_minus_one_def)

lemma wf_increment:
  assumes "wf d"
  shows "wf (d\<lparr>books := map (\<lambda>b. if b_id b = k
                               then b\<lparr>quantity := sqlite_plus_one (quantity b)\<rparr> else b)
                         (books d)\<rparr>)"
proof (rule wf_books_same_ids [OF assms(1)])
  show "map b_id (map (\<lambda>b. if b_id b = k
                               then b\<lparr>quantity := sqlite_plus_one (quantity b)\<rparr> else b)
                         (books d)) = map b_id (books d)"
    by (rule map_key_kept) simp
  show "\<forall>b\<in>set (map (\<lambda>b. if b_id b = k
                               then b\<lparr>quantity := sqlite_plus_one (quantity b)\<rparr> else b)
                         (books d)). 0 \<le> quantity b"
    using assms by (auto simp: wf_defs sqlite_plus_one_nonneg)
qed

lemma wf_decrement:
  assumes "wf d" and bk: "find (\<lambda>b. b_id b = k) (books d) = Some bk" and pos: "0 < quantity bk"
  shows "wf (d\<lparr>books := map (\<lambda>b. if b_id b = k
                               then b\<lparr>quantity := sqlite_minus_one (quantity b)\<rparr> else b)
                         (books d)\<rparr>)"
proof (rule wf_books_same_ids [OF assms(1)])
  show "map b_id (map (\<lambda>b. if b_id b = k
                               then b\<lparr>quantity := sqlite_minus_one (quantity b)\<rparr> else b)
                         (books d)) = map b_id (books d)"
    by (rule map_key_kept) simp
  have "0 < quantity b" if "b \<in> set (books d)" "b_id b = k" for b
  proof -
    from assms(1) have "distinct (map b_id (books d))" by (simp add: wf_defs)
    from find_distinct_key [OF this bk that] pos show ?thesis by simp
  qed
  then show "\<forall>b\<in>set (map (\<lambda>b. if b_id b = k
                               then b\<lparr>quantity := sqlite_minus_one (quantity b)\<rparr> else b)
                         (books d)). 0 \<le> quantity b"
    using assms(1) by (auto simp: wf_defs sqlite_minus_one_nonneg)
qed

lemma wf_delete:
  assumes "wf d"
    and "find (\<lambda>i. book_id i = k \<and> return_date i = None) (issued_books d) = None"
  shows "wf (d\<lparr>books := filter (\<lambda>b. b_id b \<noteq> k) (books d)\<rparr>)"
proof -
  have "book_id i \<in> b_id ` set (filter (\<lambda>b. b_id b \<noteq> k) (books d))"
    if "i \<in> set (issued_books d)" "return_date i = None" for i
  proof -
    from assms(2) that have "book_id i \<noteq> k" by (auto simp: find_None_iff)
    moreover from assms(1) that have "book_id i \<in> b_id ` set (books d)"
      by (simp add: wf_defs)
    ultimately show ?thesis by auto
  qed
  moreover have "distinct (map b_id (filter (\<lambda>b. b_id b \<noteq> k) (books d)))"
    using assms(1) by (simp add: wf_defs distinct_map_filter)
  ultimately show ?thesis
    using assms(1) unfolding wf_defs by simp
qed

lemma wf_close_loan:
  assumes "wf d"
  shows "wf (d\<lparr>issued_books := map (\<lambda>i. if i_id i = k then i\<lparr>return_date := Some t\<rparr> else i)
                                 (issued_books d)\<rparr>)"
proof -
  let ?g = "\<lambda>i. if i_id i = k then i\<lparr>return_date := Some t\<rparr> else i"
  let ?key = "\<lambda>i. (book_id i, student_id i)"
  have ids: "map i_id (map ?g (issued_books d)) = map i_id (issued_books d)"
    by (rule map_key_kept) simp
  have e: "filter (\<lambda>i. return_date i = None) (map ?g xs)
          = filter (\<lambda>i. i_id i \<noteq> k) (filter (\<lambda>i. return_date i = None) xs)"
    for xs :: "issued list"
    by (induction xs) auto
  have "distinct (map ?key (filter (\<lambda>i. i_id i \<noteq> k)
                    (filter (\<lambda>i. return_date i = None) (issued_books d))))"
    using assms by (simp add: wf_defs distinct_map_filter del: filter_filter)
  then have one: "distinct (map ?key
               (filter (\<lambda>i. return_date i = None) (map ?g (issued_books d))))"
    by (simp only: e)
  have uniq: "distinct (map i_id (map ?g (issued_books d)))"
    using assms unfolding ids by (simp add: wf_defs)
  have studs: "\<forall>i\<in>set (map ?g (issued_books d)). student_id i \<in> s_id ` set (students d)"
    using assms by (auto simp: wf_defs)
  have bks: "\<forall>i\<in>set (map ?g (issued_books d)).
               return_date i = None \<longrightarrow> book_id i \<in> b_id ` set (books d)"
    using assms by (auto simp: wf_defs)
  from assms one uniq studs bks show ?thesis
    unfolding wf_defs by simp
qed

lemma wf_insert_issued:
  assumes "wf d" and "sid \<in> s_id ` set (students d)" and "k \<in> b_id ` set (books d)"
    and "find (\<lambda>i. book_id i = k \<and> student_id i = sid \<and> return_date i = None)
           (issued_books d) = None"
  shows "wf (insert_issued k sid t d)"
proof -
  from assms(4) have "(k, sid) \<notin> (\<lambda>i. (book_id i, student_id i)) `
        {i \<in> set (issued_books d). return_date i = None}"
    by (auto simp: find_None_iff)
  with assms(1-3) show ?thesis
    unfolding wf_defs by (auto simp: next_rowid_fresh_map)
qed

section \<open>The invariants hold in every reachable state\<close>

lemma wf_init_db: "wf init_db"
  by (simp add: wf_defs init_db_def)

lemma wf_save_book: "wf d \<Longrightarrow> wf (snd (save_book t a q d))"
  by (simp add: save_book_def Let_def wf_insert_book split: option.splits)

lemma wf_save_update: "wf d \<Longrightarrow> wf (snd (save_update k t a q d))"
  by (simp add: save_update_def Let_def wf_update_books split: option.splits)

lemma wf_delete_selected: "wf d \<Longrightarrow> wf (snd (delete_selected sel c d))"
  by (cases sel) (simp_all add: delete_selected_def wf_delete)

lemma wf_return_book:
  assumes "wf d"
  shows "wf (snd (return_book today sel c d))"
proof (cases sel)
  case None
  with assms show ?thesis by (simp add: return_book_def)
next
  case (Some row)
  show ?thesis
  proof (cases c)
    case False
    with assms Some show ?thesis by (simp add: return_book_def)
  next
    case True
    from wf_increment [OF wf_close_loan [OF assms], of "r_book_id row" "r_issue_id row" today]
    show ?thesis using Some True by (simp add: return_book_confirmed)
  qed
qed

lemma wf_issue_to_student:
  assumes w: "wf d" and sid: "sid \<in> s_id ` set (students d)"
    and bk: "find (\<lambda>b. b_id b = k) (books d) = Some bk" and pos: "0 < quantity bk"
  shows "wf (snd (issue_to_student k sid today d))"
proof (cases "find (\<lambda>i. book_id i = k \<and> student_id i = sid \<and> return_date i = None)
                (issued_books d)")
  case (Some i)
  with w show ?thesis by (simp add: issue_to_student_def)
next
  case None
  from find_Some_set [OF bk] have "k \<in> b_id ` set (books d)" by auto
  from wf_insert_issued [OF w sid this None]
  have w2: "wf (insert_issued k sid today d)" .
  have "find (\<lambda>b. b_id b = k) (books (insert_issued k sid today d)) = Some bk"
    using bk by simp
  from wf_decrement [OF w2 this pos]
  show ?thesis using None by (simp add: issue_to_student_def Let_def)
qed

lemma wf_issue_book:
  assumes w: "wf d"
  shows "wf (snd (issue_book numeric today be re ne d))"
proof -
  let ?r = "py_strip re" and ?n = "py_strip ne"
  have new: "wf (snd (issue_to_student k (students_seq (insert_student ?n ?r d)) today
                        (insert_student ?n ?r d)))"
    if "?r \<noteq> []" "find (\<lambda>s. roll_no s = ?r) (students d) = None"
      "find (\<lambda>b. b_id b = k) (books d) = Some bk" "0 < quantity bk" for k bk
    using that by (intro wf_issue_to_student [where bk = bk] wf_insert_student [OF w]) simp_all
  have old: "wf (snd (issue_to_student k (s_id st) today d))"
    if "find (\<lambda>s. roll_no s = ?r) (students d) = Some st"
      "find (\<lambda>b. b_id b = k) (books d) = Some bk" "0 < quantity bk" for k bk st
    using that find_Some_set [OF that(1)]
    by (intro wf_issue_to_student [OF w, where bk = bk]) simp_all
  show ?thesis
    using w new old
    by (simp add: issue_book_def Let_def split: option.splits)
qed

lemma wf_step: "wf d \<Longrightarrow> wf (snd (step numeric x d))"
  by (cases x)
     (simp_all add: wf_save_book wf_save_update wf_delete_selected wf_issue_book wf_return_book)

lemma wf_run: "wf d \<Longrightarrow> wf (run numeric xs d)"
  by (induction xs arbitrary: d) (simp_all add: wf_step)

lemma wf_reachable: "wf (run numeric xs init_db)"
  by (rule wf_run [OF wf_init_db])

section \<open>Quantities never go below zero\<close>

lemma issue_book_unavailable:
  assumes "py_strip be \<noteq> []" "py_strip re \<noteq> []" "numeric (py_strip be) = Some k"
    "find (\<lambda>b. b_id b = k) (books d) = Some bk" "quantity bk \<le> 0"
  shows "issue_book numeric today be re ne d = (Unavailable, d)"
  using assms by (simp add: issue_book_def)

lemma save_book_rejects:
  assumes "py_int (py_strip q) = None \<or> (\<exists>n<0. py_int (py_strip q) = Some n)"
  shows "spec_error (fst (save_book t a q d)) = Some ValidationError"
    and "snd (save_book t a q d) = d"
  using assms by (auto simp: save_book_def Let_def)

lemma save_update_rejects:
  assumes "py_int (py_strip q) = None \<or> (\<exists>n<0. py_int (py_strip q) = Some n)"
  shows "spec_error (fst (save_update k t a q d)) = Some ValidationError"
    and "snd (save_update k t a q d) = d"
  using assms by (auto simp: save_update_def Let_def)

text \<open>
  C1. After every sequence of AddBook, UpdateBook, DeleteBook, IssueBook and ReturnBook
  from the empty database, every book row has a quantity of at least 0. In particular,
  issuing a stored book whose quantity is 0 or less is refused as unavailable and
  changes nothing, and AddBook and UpdateBook refuse, as a validation error and without
  changing anything, a quantity text that does not read as an integer or reads as a
  negative one.
\<close>

theorem quantity_never_negative:
  fixes numeric :: "string \<Rightarrow> int option" and ops :: "op list" and d :: db
    and today be re ne t a q :: string and k bid :: int and bk :: book
  shows "(\<forall>b\<in>set (books (run numeric ops init_db)). 0 \<le> quantity b)
       \<and> (py_strip be \<noteq> [] \<and> py_strip re \<noteq> [] \<and> numeric (py_strip be) = Some k
            \<and> find (\<lambda>b. b_id b = k) (books d) = Some bk \<and> quantity bk \<le> 0 \<longrightarrow>
          issue_book numeric today be re ne d = (Unavailable, d))
       \<and> (py_int (py_strip q) = None \<or> (\<exists>n<0. py_int (py_strip q) = Some n) \<longrightarrow>
            spec_error (fst (save_book t a q d)) = Some ValidationError
            \<and> snd (save_book t a q d) = d
            \<and> spec_error (fst (save_update bid t a q d)) = Some ValidationError
            \<and> snd (save_update bid t a q d) = d)"
proof (intro conjI impI)
  have "wf (run numeric ops init_db)" by (rule wf_reachable)
  then show "\<forall>b\<in>set (books (run numeric ops init_db)). 0 \<le> quantity b"
    by (simp add: wf_def quantities_ok_def)
next
  assume "py_strip be \<noteq> [] \<and> py_strip re \<noteq> [] \<and> numeric (py_strip be) = Some k
            \<and> find (\<lambda>b. b_id b = k) (books d) = Some bk \<and> quantity bk \<le> 0"
  then show "issue_book numeric today be re ne d = (Unavailable, d)"
    by (intro issue_book_unavailable [where k = k and bk = bk]) simp_all
next
  assume rej: "py_int (py_strip q) = None \<or> (\<exists>n<0. py_int (py_strip q) = Some n)"
  show "spec_error (fst (save_book t a q d)) = Some ValidationError"
    by (rule save_book_rejects [OF rej])
  show "snd (save_book t a q d) = d"
    by (rule save_book_rejects [OF rej])
  show "spec_error (fst (save_update bid t a q d)) = Some ValidationError"
    by (rule save_update_rejects [OF rej])
  show "snd (save_update bid t a q d) = d"
    by (rule save_update_rejects [OF rej])
qed

theorem quantity_never_negative_witness:
  "\<lparr>b_id = 1, title = ''Dune'', author = ''Herbert'', quantity = 1\<rparr>
      \<in> set (books (run py_int dune_ops init_db))
   \<and> (0::int) \<le> quantity \<lparr>b_id = 1, title = ''Dune'', author = ''Herbert'', quantity = 1\<rparr>
   \<and> py_strip ''1'' \<noteq> [] \<and> py_strip ''R1'' \<noteq> [] \<and> py_int (py_strip ''1'') = Some 1
   \<and> find (\<lambda>b. b_id b = 1) (books none_left_db)
        = Some \<lparr>b_id = 1, title = ''X'', author = ''Y'', quantity = 0\<rparr>
   \<and> issue_book py_int ''2026-11-04'' ''1'' ''R1'' ''A'' none_left_db = (Unavailable, none_left_db)
   \<and> py_int (py_strip ''-3'') = Some (- 3)
   \<and> snd (save_book ''X'' ''Y'' ''-3'' none_left_db) = none_left_db
   \<and> py_int (py_strip ''two'') = None
   \<and> snd (save_update 1 ''X'' ''Y'' ''two'' none_left_db) = none_left_db"
proof -
  let ?b = "\<lparr>b_id = 1, title = ''Dune'', author = ''Herbert'', quantity = 1\<rparr>"
  let ?x = "\<lparr>b_id = 1, title = ''X'', author = ''Y'', quantity = 0\<rparr>"
  have h1: "?b \<in> set (books (run py_int dune_ops init_db))"
    using dune_db_eval by (simp add: dune_db_def)
  have h2: "py_strip ''1'' \<noteq> []" "py_strip ''R1'' \<noteq> []" "py_int (py_strip ''1'') = Some 1"
    "py_int (py_strip ''-3'') = Some (- 3)" "py_int (py_strip ''two'') = None"
    by (simp_all add: py_strip_def py_int_def py_unsigned_def is_space_def int_space_def
        is_digit_def digit_val_def)
  have h3: "find (\<lambda>b. b_id b = 1) (books none_left_db) = Some ?x" "quantity ?x \<le> 0"
    by (simp_all add: none_left_db_eval)
  have h4: "\<exists>n<0. py_int (py_strip ''-3'') = Some n"
    using h2(4) by (intro exI [of _ "- 3"]) simp
  show ?thesis
    using h1 h2 h3 h4
      quantity_never_negative [where numeric = py_int and ops = dune_ops
        and be = "''1''" and re = "''R1''" and k = 1 and d = none_left_db and bk = ?x
        and today = "''2026-11-04''" and ne = "''A''" and q = "''-3''" and t = "''X''"
        and a = "''Y''"]
      quantity_never_negative [where numeric = py_int and ops = dune_ops
        and d = none_left_db and q = "''two''" and t = "''X''" and a = "''Y''" and bid = 1]
    by auto
qed

section \<open>At most one open loan for a book and a student\<close>

lemma distinct_key_count:
  "distinct (map f ys) \<Longrightarrow> length (filter (\<lambda>y. f y = v) ys) \<le> 1"
proof (induction ys)
  case Nil
  then show ?case by simp
next
  case (Cons a ys)
  show ?case
  proof (cases "f a = v")
    case True
    with Cons.prems have "v \<notin> f ` set ys" by simp
    then have "filter (\<lambda>y. f y = v) ys = []" by (force simp: filter_empty_conv)
    with True show ?thesis by simp
  next
    case False
    with Cons show ?thesis by simp
  qed
qed

lemma open_loans_count:
  assumes "one_open_loan d"
  shows "length (open_loans k sid d) \<le> 1"
proof -
  have "open_loans k sid d =
      filter (\<lambda>i. (book_id i, student_id i) = (k, sid))
        (filter (\<lambda>i. return_date i = None) (issued_books d))"
    by (auto simp: open_loans_def intro: filter_cong)
  with distinct_key_count [OF assms [unfolded one_open_loan_def], of "(k, sid)"]
  show ?thesis by simp
qed

lemma issue_to_student_dup:
  assumes "open_loans k sid d \<noteq> []"
  shows "issue_to_student k sid today d = (Already_Issued, d)"
proof -
  from assms have "find (\<lambda>i. book_id i = k \<and> student_id i = sid \<and> return_date i = None)
      (issued_books d) \<noteq> None"
    by (auto simp: open_loans_def find_None_iff filter_empty_conv)
  then show ?thesis unfolding issue_to_student_def by simp
qed

lemma second_issue_conflict:
  assumes w: "wf d" and st: "st \<in> set (students d)" and roll: "roll_no st = py_strip re"
    and be: "py_strip be \<noteq> []" and k: "numeric (py_strip be) = Some k"
    and op: "open_loans k (s_id st) d \<noteq> []"
  shows "issue_book numeric today be re ne d = (Unavailable, d)
       \<or> issue_book numeric today be re ne d = (Already_Issued, d)"
proof -
  from w st roll have re: "py_strip re \<noteq> []" by (auto simp: wf_def refs_ok_def)
  from op obtain i where i: "i \<in> set (issued_books d)" "book_id i = k" "return_date i = None"
    by (auto simp: open_loans_def filter_empty_conv)
  with w have "k \<in> b_id ` set (books d)" by (auto simp: wf_def refs_ok_def)
  then obtain bk where bk: "find (\<lambda>b. b_id b = k) (books d) = Some bk"
    by (cases "find (\<lambda>b. b_id b = k) (books d)") (auto simp: find_None_iff)
  obtain st' where st': "find (\<lambda>s. roll_no s = py_strip re) (students d) = Some st'"
    using st roll
    by (cases "find (\<lambda>s. roll_no s = py_strip re) (students d)") (auto simp: find_None_iff)
  from w have "distinct (map roll_no (students d))" by (simp add: wf_def unique_ids_def)
  from find_distinct_key [OF this st' st roll] have same: "st' = st" by simp
  show ?thesis
  proof (cases "quantity bk \<le> 0")
    case True
    with be re k bk show ?thesis by (simp add: issue_book_def)
  next
    case False
    with be re k bk st' same issue_to_student_dup [OF op, of today]
    show ?thesis by (simp add: issue_book_def)
  qed
qed

text \<open>
  C2. In every state reached from the empty database, the loan rows without a return
  date for any given book id and student id number at most one. In such a state, when
  the student with the roll number entered holds an open loan of the book entered,
  \<^verbatim>\<open>issue_book\<close> fails with a conflict (no copies left, or already issued to this
  student) and the stored data, the loan rows among them, stay as they are.
\<close>

theorem one_open_loan_per_pair:
  fixes numeric :: "string \<Rightarrow> int option" and ops :: "op list"
    and k sid k' :: int and st :: student and today be re ne :: string
  defines "d \<equiv> run numeric ops init_db"
  shows "length (open_loans k sid d) \<le> 1
       \<and> (st \<in> set (students d) \<and> roll_no st = py_strip re \<and> py_strip be \<noteq> []
            \<and> numeric (py_strip be) = Some k' \<and> open_loans k' (s_id st) d \<noteq> [] \<longrightarrow>
          spec_error (fst (issue_book numeric today be re ne d)) = Some ConflictError
          \<and> snd (issue_book numeric today be re ne d) = d)"
proof -
  have w: "wf d" unfolding d_def by (rule wf_reachable)
  then have "length (open_loans k sid d) \<le> 1"
    by (intro open_loans_count) (simp add: wf_def)
  moreover have "spec_error (fst (issue_book numeric today be re ne d)) = Some ConflictError
          \<and> snd (issue_book numeric today be re ne d) = d"
    if "st \<in> set (students d) \<and> roll_no st = py_strip re \<and> py_strip be \<noteq> []
            \<and> numeric (py_strip be) = Some k' \<and> open_loans k' (s_id st) d \<noteq> []"
    using second_issue_conflict [OF w, of st re be numeric k' today ne] that by auto
  ultimately show ?thesis by blast
qed

theorem one_open_loan_per_pair_witness:
  "length (open_loans 1 1 (run py_int dune_ops init_db)) = 1
   \<and> \<lparr>s_id = 1, name = ''Alice'', roll_no = ''R100''\<rparr> \<in> set (students (run py_int dune_ops init_db))
   \<and> ''R100'' = py_strip '' R100'' \<and> py_strip ''1'' \<noteq> [] \<and> py_int (py_strip ''1'') = Some 1
   \<and> open_loans 1 1 (run py_int dune_ops init_db) \<noteq> []
   \<and> spec_error (fst (issue_book py_int ''2026-11-05'' ''1'' '' R100'' ''Bob''
                         (run py_int dune_ops init_db))) = Some ConflictError
   \<and> snd (issue_book py_int ''2026-11-05'' ''1'' '' R100'' ''Bob''
             (run py_int dune_ops init_db)) = run py_int dune_ops init_db"
proof -
  let ?st = "\<lparr>s_id = 1, name = ''Alice'', roll_no = ''R100''\<rparr>"
  have e: "run py_int dune_ops init_db = dune_db" by (simp add: dune_db_def)
  have h1: "length (open_loans 1 1 dune_db) = 1" "open_loans 1 (s_id ?st) dune_db \<noteq> []"
    "?st \<in> set (students dune_db)"
    by (simp_all add: dune_db_eval open_loans_def)
  have h2: "roll_no ?st = py_strip '' R100''" "py_strip ''1'' \<noteq> []"
    "py_int (py_strip ''1'') = Some 1"
    by (simp_all add: py_strip_def py_int_def py_unsigned_def is_space_def int_space_def
        is_digit_def digit_val_def)
  show ?thesis
    using h1 h2
      one_open_loan_per_pair [where numeric = py_int and ops = dune_ops and st = ?st
        and re = "'' R100''" and be = "''1''" and k' = 1 and k = 1 and sid = 1
        and today = "''2026-11-05''" and ne = "''Bob''"]
    unfolding e by simp
qed

section \<open>A failed operation changes nothing\<close>

lemma save_book_failed: "fst (save_book t a q d) \<noteq> Book_Added \<Longrightarrow> snd (save_book t a q d) = d"
  by (auto simp: save_book_def Let_def split: option.splits if_splits)

lemma save_update_failed:
  "fst (save_update k t a q d) \<noteq> Book_Updated \<Longrightarrow> snd (save_update k t a q d) = d"
  by (auto simp: save_update_def Let_def split: option.splits if_splits)

lemma delete_selected_failed:
  "fst (delete_selected sel c d) \<noteq> Book_Deleted \<Longrightarrow> snd (delete_selected sel c d) = d"
  by (auto simp: delete_selected_def split: option.splits if_splits)

lemma return_book_failed:
  "fst (return_book today sel c d) \<noteq> Returned \<Longrightarrow> snd (return_book today sel c d) = d"
  by (auto simp: return_book_def split: option.splits if_splits)

lemma issue_to_student_failed:
  "fst (issue_to_student k sid today d) \<noteq> Issued \<Longrightarrow> snd (issue_to_student k sid today d) = d"
  by (auto simp: issue_to_student_def Let_def split: if_splits)

lemma issue_to_new_student:
  assumes "wf d"
  shows "fst (issue_to_student k (next_rowid (students_seq d) (map s_id (students d))) today
                (insert_student n r d)) = Issued"
proof -
  let ?sid = "next_rowid (students_seq d) (map s_id (students d))"
  have "student_id i \<noteq> ?sid" if "i \<in> set (issued_books d)" for i
  proof -
    from assms that have "student_id i \<in> s_id ` set (students d)"
      by (simp add: wf_def refs_ok_def)
    with next_rowid_fresh_map [of "students_seq d" s_id "students d"] show ?thesis by auto
  qed
  then have "find (\<lambda>i. book_id i = k \<and> student_id i = ?sid \<and> return_date i = None)
               (issued_books (insert_student n r d)) = None"
    by (auto simp: find_None_iff)
  then show ?thesis by (simp add: issue_to_student_def Let_def)
qed

lemma issue_book_failed:
  assumes "wf d" and "fst (issue_book numeric today be re ne d) \<noteq> Issued"
  shows "snd (issue_book numeric today be re ne d) = d"
  using assms(2) issue_to_new_student [OF assms(1)] issue_to_student_failed
  by (auto simp: issue_book_def Let_def split: option.splits if_splits)

lemma step_failed:
  assumes "wf d" and "spec_error (fst (step numeric x d)) \<noteq> None"
  shows "snd (step numeric x d) = d"
proof (cases x)
  case (AddBook t a q)
  with assms(2) have "fst (save_book t a q d) \<noteq> Book_Added" by auto
  with AddBook show ?thesis by (simp add: save_book_failed)
next
  case (UpdateBook k t a q)
  with assms(2) have "fst (save_update k t a q d) \<noteq> Book_Updated" by auto
  with UpdateBook show ?thesis by (simp add: save_update_failed)
next
  case (DeleteBook sel c)
  with assms(2) have "fst (delete_selected sel c d) \<noteq> Book_Deleted" by auto
  with DeleteBook show ?thesis by (simp add: delete_selected_failed)
next
  case (IssueBook today b r n)
  with assms(2) have "fst (issue_book numeric today b r n d) \<noteq> Issued" by auto
  with IssueBook assms(1) show ?thesis by (simp add: issue_book_failed)
next
  case (ReturnBook today sel c)
  with assms(2) have "fst (return_book today sel c d) \<noteq> Returned" by auto
  with ReturnBook show ?thesis by (simp add: return_book_failed)
qed

text \<open>
  C4. In every state reached from the empty database, an operation that ends in a
  validation, not-found or conflict error leaves the stored data exactly as they were.
  In particular, issuing a stored book whose quantity is 0 is refused as unavailable, a
  conflict, with no loan row, no student row and no change of quantity.
\<close>

theorem failure_leaves_state_unchanged:
  fixes numeric :: "string \<Rightarrow> int option" and ops :: "op list" and x :: op
    and d0 :: db and today be re ne :: string and k :: int and bk :: book
  defines "d \<equiv> run numeric ops init_db"
  shows "(spec_error (fst (step numeric x d))
            \<in> {Some ValidationError, Some NotFoundError, Some ConflictError} \<longrightarrow>
          snd (step numeric x d) = d)
       \<and> (py_strip be \<noteq> [] \<and> py_strip re \<noteq> [] \<and> numeric (py_strip be) = Some k
            \<and> find (\<lambda>b. b_id b = k) (books d0) = Some bk \<and> quantity bk = 0 \<longrightarrow>
          issue_book numeric today be re ne d0 = (Unavailable, d0)
          \<and> spec_error Unavailable = Some ConflictError)"
proof (intro conjI impI)
  assume "spec_error (fst (step numeric x d))
            \<in> {Some ValidationError, Some NotFoundError, Some ConflictError}"
  then have "spec_error (fst (step numeric x d)) \<noteq> None" by auto
  moreover have "wf d" unfolding d_def by (rule wf_reachable)
  ultimately show "snd (step numeric x d) = d" by (intro step_failed)
next
  assume "py_strip be \<noteq> [] \<and> py_strip re \<noteq> [] \<and> numeric (py_strip be) = Some k
            \<and> find (\<lambda>b. b_id b = k) (books d0) = Some bk \<and> quantity bk = 0"
  then show "issue_book numeric today be re ne d0 = (Unavailable, d0)"
    by (intro issue_book_unavailable [where k = k and bk = bk]) simp_all
  show "spec_error Unavailable = Some ConflictError" by simp
qed

theorem failure_leaves_state_unchanged_witness:
  "spec_error (fst (step py_int (IssueBook ''2026-11-05'' ''1'' ''R100'' ''Alice'')
                      (run py_int dune_ops init_db))) = Some ConflictError
   \<and> snd (step py_int (IssueBook ''2026-11-05'' ''1'' ''R100'' ''Alice'')
            (run py_int dune_ops init_db)) = run py_int dune_ops init_db
   \<and> py_strip ''1'' \<noteq> [] \<and> py_strip ''R1'' \<noteq> [] \<and> py_int (py_strip ''1'') = Some 1
   \<and> find (\<lambda>b. b_id b = 1) (books none_left_db)
        = Some \<lparr>b_id = 1, title = ''X'', author = ''Y'', quantity = 0\<rparr>
   \<and> issue_book py_int ''2026-11-04'' ''1'' ''R1'' ''A'' none_left_db = (Unavailable, none_left_db)"
proof -
  let ?x = "\<lparr>b_id = 1, title = ''X'', author = ''Y'', quantity = 0\<rparr>"
  have e: "run py_int dune_ops init_db = dune_db" by (simp add: dune_db_def)
  have h1: "spec_error (fst (step py_int (IssueBook ''2026-11-05'' ''1'' ''R100'' ''Alice'')
                      dune_db)) = Some ConflictError"
    by (simp add: dune_db_eval eval_defs)
  have h2: "py_strip ''1'' \<noteq> []" "py_strip ''R1'' \<noteq> []" "py_int (py_strip ''1'') = Some 1"
    by (simp_all add: py_strip_def py_int_def py_unsigned_def is_space_def int_space_def
        is_digit_def digit_val_def)
  have h3: "find (\<lambda>b. b_id b = 1) (books none_left_db) = Some ?x" "quantity ?x = 0"
    by (simp_all add: none_left_db_eval)
  show ?thesis
    using h1 h2 h3
      failure_leaves_state_unchanged [where numeric = py_int and ops = dune_ops
        and x = "IssueBook ''2026-11-05'' ''1'' ''R100'' ''Alice''"
        and be = "''1''" and re = "''R1''" and k = 1 and ?d0.0 = none_left_db and bk = ?x
        and today = "''2026-11-04''" and ne = "''A''"]
    unfolding e by simp
qed


section \<open>SearchBooks\<close>

lemma like_percent_any: "like_match [CHR ''%''] t"
  by (induction t) auto

lemma like_prefix:
  assumes "CHR ''%'' \<notin> set f" "CHR ''_'' \<notin> set f"
  shows "like_match (f @ [CHR ''%'']) t \<longleftrightarrow> prefix (map ascii_lower f) (map ascii_lower t)"
  using assms
proof (induction f arbitrary: t)
  case Nil
  then show ?case by (simp add: like_percent_any)
next
  case (Cons p ps)
  then show ?case by (cases t) auto
qed

lemma like_substring:
  assumes "CHR ''%'' \<notin> set f" "CHR ''_'' \<notin> set f"
  shows "like_match (CHR ''%'' # f @ [CHR ''%'']) t \<longleftrightarrow> contains_ci f t"
proof (induction t)
  case Nil
  have "like_match (f @ [CHR ''%'']) [] \<longleftrightarrow> f = []"
    using like_prefix [OF assms, of "[]"] by simp
  then show ?case by (simp add: contains_ci_def)
next
  case (Cons c cs)
  have "like_match (CHR ''%'' # f @ [CHR ''%'']) (c # cs) \<longleftrightarrow>
          like_match (f @ [CHR ''%'']) (c # cs) \<or> like_match (CHR ''%'' # f @ [CHR ''%'']) cs"
    by simp
  also have "\<dots> \<longleftrightarrow> prefix (map ascii_lower f) (map ascii_lower (c # cs))
                   \<or> sublist (map ascii_lower f) (map ascii_lower cs)"
    using like_prefix [OF assms, of "c # cs"] Cons.IH by (simp add: contains_ci_def)
  also have "\<dots> \<longleftrightarrow> contains_ci f (c # cs)"
    by (simp add: contains_ci_def sublist_Cons_right)
  finally show ?case .
qed

lemma c_string_no_nul: "CHR 0x00 \<notin> set s \<Longrightarrow> c_string s = s"
  by (auto simp: c_string_def)

lemma utf8_length_pattern:
  "utf8_length (CHR ''%'' # f @ [CHR ''%'']) = utf8_length f + 2"
  by (simp add: utf8_length_def)

text \<open>
  What the search does for a filter without \<^verbatim>\<open>%\<close>, \<^verbatim>\<open>_\<close> and NUL that keeps the
  pattern within 50000 bytes: it lists exactly the stored books whose title, up to its
  first NUL, contains the filter as a substring up to the case of the letters A to Z,
  in ascending order of title, and stores nothing.
\<close>

lemma load_books_substring_search:
  assumes "CHR ''%'' \<notin> set f" and "CHR ''_'' \<notin> set f" and "CHR 0x00 \<notin> set f"
    and "utf8_length f + 2 \<le> 50000"
  shows "\<exists>rows. load_books f d = (Inr rows, d)
           \<and> mset rows = mset (filter (\<lambda>b. contains_ci f (c_string (title b))) (books d))
           \<and> sorted (map title rows)"
proof (cases "f = []")
  case True
  then show ?thesis by (simp add: load_books_def contains_ci_def)
next
  case False
  have "c_string (CHR ''%'' # f @ [CHR ''%'']) = CHR ''%'' # f @ [CHR ''%'']"
    using assms(3) by (intro c_string_no_nul) simp
  then have "sqlite_like (CHR ''%'' # f @ [CHR ''%'']) t = contains_ci f (c_string t)" for t
    by (simp add: sqlite_like_def like_substring [OF assms(1,2)])
  with False assms(4) show ?thesis
    by (simp add: load_books_def Let_def utf8_length_pattern)
qed

text \<open>
  C9. The claim asks for exactly the books whose title contains the filter. The code,
  for the filter \<^verbatim>\<open>_\<close> and a store that holds the one book titled Dune, lists that
  book, although the title does not contain the filter: the filter is put into the
  \<^verbatim>\<open>LIKE\<close> pattern as it is, where \<^verbatim>\<open>_\<close> stands for any one character. The stored
  data stay as they are.
\<close>

theorem load_books_underscore_lists_dune:
  "search_action ''_'' stock_db = load_books ''_'' stock_db
   \<and> load_books ''_'' stock_db
       = (Inr [\<lparr>b_id = 1, title = ''Dune'', author = ''Herbert'', quantity = 2\<rparr>], stock_db)
   \<and> \<not> contains_ci ''_'' ''Dune''"
proof -
  have "\<not> contains_ci ''_'' ''Dune''" by code_simp
  moreover have "sqlite_like ''%_%'' ''Dune''" by code_simp
  moreover have "utf8_length ''%_%'' = 3" by code_simp
  moreover have "py_strip ''_'' = ''_''" by (simp add: py_strip_def is_space_def)
  ultimately show ?thesis
    by (simp add: stock_db_eval load_books_def search_action_def)
qed


end
